theory Spec2Isabelle
  imports Main "HOL-Library.Char_ord" "HOL-Library.List_Lexorder"
begin

section \<open>The consumer's reconnection schedule (SignalRService)\<close>

text \<open>
  \<^verbatim>\<open>private maxReconnectAttempts: number = 10;\<close>
\<close>

definition maxReconnectAttempts :: nat where
  "maxReconnectAttempts = 10"

text \<open>
  The retry policy handed to \<^verbatim>\<open>withAutomaticReconnect\<close>:
  \<^verbatim>\<open>
  nextRetryDelayInMilliseconds: (retryContext) => {
    if (retryContext.previousRetryCount >= this.maxReconnectAttempts) {
      return null; // Stop reconnecting
    }
    return Math.min(1000 * Math.pow(2, retryContext.previousRetryCount), 30000);
  }
  \<close>
  The argument is \<^verbatim>\<open>retryContext.previousRetryCount\<close>, a count; \<open>None\<close> is the
  \<^verbatim>\<open>null\<close> that stops the reconnection. Below the ceiling the product
  \<open>1000 * 2 ^ n\<close> is at most 512000, an integer a double holds exactly.
\<close>

definition nextRetryDelayInMilliseconds :: "nat \<Rightarrow> int option" where
  "nextRetryDelayInMilliseconds previousRetryCount =
     (if previousRetryCount \<ge> maxReconnectAttempts then None
      else Some (min (1000 * 2 ^ previousRetryCount) 30000))"

text \<open>
  Modelled from the spec: the reconnection controller that runs the policy. The source
  obtains it from \<^verbatim>\<open>new signalR.HubConnectionBuilder().withAutomaticReconnect({...})\<close>
  of the package \<^verbatim>\<open>@microsoft/signalr\<close>, which is not among the sources; the states, the
  counter and the transitions below are those of the specification:
  \<^item> states \<^verbatim>\<open>Disconnected -> Connecting -> Connected -> Reconnecting -> Connected | Closed\<close>;
  \<^item> on the initial \<^verbatim>\<open>connect()\<close>, \<^verbatim>\<open>Disconnected -> Connecting\<close>; success leads to
    \<^verbatim>\<open>Connected\<close> and resets the retry counter to 0, failure leads to \<^verbatim>\<open>Disconnected\<close>;
  \<^item> when an established connection drops, \<^verbatim>\<open>Connected -> Reconnecting\<close>, and the next
    retry delay is computed from \<^verbatim>\<open>attemptCount\<close>, which starts at 0 and is incremented
    by each failed retry;
  \<^item> after \<^verbatim>\<open>attemptCount\<close> reaches the ceiling, reconnection stops and the controller
    is \<^verbatim>\<open>Closed\<close>;
  \<^item> a successful reconnect resets \<^verbatim>\<open>attemptCount\<close> to 0;
  \<^item> \<^verbatim>\<open>disconnect()\<close> at any state leads to \<^verbatim>\<open>Closed\<close> and cancels the pending retry.

  The delay and the ceiling are asked of the policy of the source,
  \<open>nextRetryDelayInMilliseconds\<close>: its \<^verbatim>\<open>null\<close> is the stop. \<open>attempts\<close> counts the
  automatic connect attempts (the retries) issued so far; a retry is issued from
  \<^verbatim>\<open>Reconnecting\<close> only, and the event is its outcome.
\<close>

datatype lifecycle = Disconnected | Connecting | Connected | Reconnecting | Closed

text \<open>
  Modelled from the spec: what happens to the controller. The calls \<^verbatim>\<open>connect()\<close> and
  \<^verbatim>\<open>disconnect()\<close>, the outcome of the initial connect, the drop of an established
  connection, and the outcome of a retry.
\<close>

datatype controller_event =
    Connect_called
  | Connect_succeeded
  | Connect_failed
  | Connection_dropped
  | Retry_succeeded
  | Retry_failed
  | Disconnect_called

text \<open>
  Modelled from the spec: the controller's state, its \<^verbatim>\<open>attemptCount\<close>, the delay of
  the pending retry timer, and the count of the retries issued.
\<close>

record controller =
  phase :: lifecycle
  attemptCount :: nat
  pending :: "int option"
  attempts :: nat

text \<open>Modelled from the spec: the controller before the first \<^verbatim>\<open>connect()\<close>.\<close>

definition controller_start :: controller where
  "controller_start = \<lparr>phase = Disconnected, attemptCount = 0, pending = None, attempts = 0\<rparr>"

text \<open>
  Modelled from the spec: the next retry is computed from \<^verbatim>\<open>attemptCount\<close> by the policy
  of the source; where the policy gives no delay, reconnection stops and the controller is
  \<^verbatim>\<open>Closed\<close>.
\<close>

definition schedule_retry :: "controller \<Rightarrow> controller" where
  "schedule_retry c =
     (case nextRetryDelayInMilliseconds (attemptCount c) of
        None \<Rightarrow> c\<lparr>phase := Closed, pending := None\<rparr>
      | Some delay \<Rightarrow> c\<lparr>phase := Reconnecting, pending := Some delay\<rparr>)"

text \<open>
  Modelled from the spec: the transitions. An event that does not apply in the current
  state leaves the controller as it is.
\<close>

fun controller_step :: "controller \<Rightarrow> controller_event \<Rightarrow> controller" where
  "controller_step c Disconnect_called = c\<lparr>phase := Closed, pending := None\<rparr>"
| "controller_step c Connect_called =
     (if phase c = Disconnected then c\<lparr>phase := Connecting\<rparr> else c)"
| "controller_step c Connect_succeeded =
     (if phase c = Connecting then c\<lparr>phase := Connected, attemptCount := 0\<rparr> else c)"
| "controller_step c Connect_failed =
     (if phase c = Connecting then c\<lparr>phase := Disconnected\<rparr> else c)"
| "controller_step c Connection_dropped =
     (if phase c = Connected then schedule_retry c else c)"
| "controller_step c Retry_succeeded =
     (if phase c = Reconnecting
      then c\<lparr>phase := Connected, attemptCount := 0, pending := None,
             attempts := attempts c + 1\<rparr>
      else c)"
| "controller_step c Retry_failed =
     (if phase c = Reconnecting
      then schedule_retry (c\<lparr>attemptCount := attemptCount c + 1, attempts := attempts c + 1\<rparr>)
      else c)"

text \<open>
  Modelled from the spec: a run of the controller, the events in the order they happen.
\<close>

fun controller_run :: "controller \<Rightarrow> controller_event list \<Rightarrow> controller" where
  "controller_run c [] = c"
| "controller_run c (ev # evs) = controller_run (controller_step c ev) evs"

section \<open>Values of the hub: parsed JSON, Set and Map\<close>

text \<open>
  An inbound message is whatever \<^verbatim>\<open>JSON.parse\<close> returns (the handler takes
  \<^verbatim>\<open>message: any\<close>), and a property the message lacks reads as \<^verbatim>\<open>undefined\<close>.
  A number is held as the text JavaScript prints for it (\<^verbatim>\<open>String(n)\<close>); that text
  determines the number up to the sign of zero, which \<^verbatim>\<open>Set\<close> membership ignores
  as well, and \<^verbatim>\<open>JSON.parse\<close> never yields \<^verbatim>\<open>NaN\<close>. The members of an object
  are listed with each name once, as the parsed object holds them.
\<close>

datatype json =
    JUndefined
  | JNull
  | JBool bool
  | JNum string
  | JStr string
  | JArr "json list"
  | JObj "(string \<times> json) list"

datatype error = SyntaxError | TypeError | RangeError | SqlError | FsError

text \<open>
  \<^verbatim>\<open>message.name\<close> for the names the hub reads (\<^verbatim>\<open>type\<close>, \<^verbatim>\<open>deviceId\<close>,
  \<^verbatim>\<open>latitude\<close>, ...; none of them is a built-in property of a primitive or of an array):
  a \<^verbatim>\<open>TypeError\<close> on \<^verbatim>\<open>null\<close> and \<^verbatim>\<open>undefined\<close>, the member of an object,
  \<^verbatim>\<open>undefined\<close> otherwise.
\<close>

fun js_prop :: "json \<Rightarrow> string \<Rightarrow> error + json" where
  "js_prop JUndefined name = Inl TypeError"
| "js_prop JNull name = Inl TypeError"
| "js_prop (JObj members) name =
     (case map_of members name of None \<Rightarrow> Inr JUndefined | Some v \<Rightarrow> Inr v)"
| "js_prop v name = Inr JUndefined"

text \<open>The same read on a value already known not to be \<^verbatim>\<open>null\<close> (no exception).\<close>

definition js_get :: "json \<Rightarrow> string \<Rightarrow> json" where
  "js_get message name = (case js_prop message name of Inl e \<Rightarrow> JUndefined | Inr v \<Rightarrow> v)"

text \<open>\<^verbatim>\<open>Array.prototype.join\<close> with the separator \<^verbatim>\<open>","\<close>.\<close>

fun js_join :: "string list \<Rightarrow> string" where
  "js_join [] = []"
| "js_join [x] = x"
| "js_join (x # y # ys) = x @ '','' @ js_join (y # ys)"

text \<open>
  The conversion a template literal \<^verbatim>\<open>`${v}`\<close> applies. An array prints its elements
  joined by commas, \<^verbatim>\<open>null\<close> and \<^verbatim>\<open>undefined\<close> elements as the empty string.
\<close>

fun js_String :: "json \<Rightarrow> string" where
  "js_String JUndefined = ''undefined''"
| "js_String JNull = ''null''"
| "js_String (JBool b) = (if b then ''true'' else ''false'')"
| "js_String (JNum text) = text"
| "js_String (JStr s) = s"
| "js_String (JArr xs) =
     js_join (map (\<lambda>x. if x = JUndefined \<or> x = JNull then [] else js_String x) xs)"
| "js_String (JObj members) = ''[object Object]''"

text \<open>\<^verbatim>\<open>String(n)\<close> for a non-negative integer such as \<^verbatim>\<open>Date.now()\<close>.\<close>

fun digits :: "nat \<Rightarrow> string" where
  "digits n =
     (if n < 10 then [''0123456789'' ! n]
      else digits (n div 10) @ [''0123456789'' ! (n mod 10)])"

declare digits.simps [simp del]

text \<open>
  The comparison of \<^verbatim>\<open>Set.prototype.has/add/delete\<close> (SameValueZero) between a value
  held by a set and a value of the message being handled. Primitives compare by value.
  An object or an array of a message is a new object of that \<^verbatim>\<open>JSON.parse\<close> call, so
  it is the same as no value that came from an earlier message.
\<close>

fun sameValueZero :: "json \<Rightarrow> json \<Rightarrow> bool" where
  "sameValueZero held (JArr xs) = False"
| "sameValueZero held (JObj members) = False"
| "sameValueZero held v = (held = v)"

text \<open>
  \<^verbatim>\<open>Set<string>\<close> as the list of its elements in insertion order.
\<close>

definition Set_has :: "json list \<Rightarrow> json \<Rightarrow> bool" where
  "Set_has s v = (\<exists>x \<in> set s. sameValueZero x v)"

definition Set_add :: "json list \<Rightarrow> json \<Rightarrow> json list" where
  "Set_add s v = (if Set_has s v then s else s @ [v])"

definition Set_delete :: "json list \<Rightarrow> json \<Rightarrow> json list" where
  "Set_delete s v = filter (\<lambda>x. \<not> sameValueZero x v) s"

definition Set_size :: "json list \<Rightarrow> nat" where
  "Set_size s = length s"

text \<open>
  \<^verbatim>\<open>Map<string, V>\<close> as the list of its entries in insertion order: \<^verbatim>\<open>set\<close> replaces
  the value of a key the map has, in place, and appends a new key; \<^verbatim>\<open>get\<close> is
  \<open>map_of\<close>; \<^verbatim>\<open>forEach\<close> walks the list.
\<close>

fun Map_set :: "(string \<times> 'v) list \<Rightarrow> string \<Rightarrow> 'v \<Rightarrow> (string \<times> 'v) list" where
  "Map_set [] k v = [(k, v)]"
| "Map_set ((k', v') # m) k v = (if k' = k then (k, v) # m else (k', v') # Map_set m k v)"

definition Map_delete :: "(string \<times> 'v) list \<Rightarrow> string \<Rightarrow> (string \<times> 'v) list" where
  "Map_delete m k = filter (\<lambda>(k', v). k' \<noteq> k) m"

definition Map_size :: "(string \<times> 'v) list \<Rightarrow> nat" where
  "Map_size m = length m"

section \<open>Connections\<close>

text \<open>
  A \<^verbatim>\<open>WebSocket\<close> of the \<^verbatim>\<open>ws\<close> package, as far as the hub uses it: the
  \<^verbatim>\<open>readyState\<close> and the messages handed to \<^verbatim>\<open>send\<close>, oldest first (each is the
  object given to \<^verbatim>\<open>JSON.stringify\<close>).
\<close>

datatype readyState = CONNECTING | OPEN | CLOSING | CLOSED

record WebSocket =
  readyState :: readyState
  sent :: "json list"

record ConnectedClient =
  id_c :: string
  socket :: WebSocket
  deviceGroups :: "json list"

text \<open>
  \<^verbatim>\<open>
  function sendToClient(socket: WebSocket, message: any): void {
    if (socket.readyState === WebSocket.OPEN) {
      socket.send(JSON.stringify(message));
    }
  }
  \<close>
\<close>

definition sendToClient :: "WebSocket \<Rightarrow> json \<Rightarrow> WebSocket" where
  "sendToClient ws message =
     (if readyState ws = OPEN then ws\<lparr>sent := sent ws @ [message]\<rparr> else ws)"

section \<open>The storage service (DatabaseService)\<close>

text \<open>
  The tables of the schema that the hub reads or writes, with the columns it reads or
  writes: \<^verbatim>\<open>locations\<close> and \<^verbatim>\<open>devices\<close>. A row holds what reading it back gives:
  the bound values after the conversion of the column's affinity (\<^verbatim>\<open>TEXT\<close> for the
  ids, \<^verbatim>\<open>REAL\<close> for the coordinates and the telemetry).
\<close>

record LocationRow =
  id_r :: string
  device_id :: json
  latitude_r :: json
  longitude_r :: json
  timestamp_r :: string
  accuracy_r :: json
  speed_r :: json
  heading_r :: json
  altitude_r :: json

datatype presence = online | offline

record DeviceRow =
  id_d :: json
  last_seen :: string
  status :: presence

record Database =
  locations :: "LocationRow list"
  devices :: "DeviceRow list"

text \<open>
  The payload \<^verbatim>\<open>interface LocationUpdate\<close>. Its \<^verbatim>\<open>timestamp\<close> is a \<^verbatim>\<open>Date\<close> made by
  \<^verbatim>\<open>new Date()\<close>, always a valid time, held here as its \<^verbatim>\<open>toISOString()\<close> text.
  The other fields hold what the message held.
\<close>

record LocationUpdate =
  id_u :: string
  deviceId :: json
  latitude :: json
  longitude :: json
  timestamp :: string
  accuracy :: json
  speed :: json
  heading :: json
  altitude :: json

text \<open>
  A \<^verbatim>\<open>Date\<close> built from a value of a message: the invalid date, or a valid time held
  as its ISO text. \<^verbatim>\<open>toISOString\<close> throws a \<^verbatim>\<open>RangeError\<close> on the invalid date.
\<close>

datatype Date = Invalid_Date | Date string

fun toISOString :: "Date \<Rightarrow> error + string" where
  "toISOString Invalid_Date = Inl RangeError"
| "toISOString (Date text) = Inr text"

text \<open>
  What the JavaScript runtime, the file system and the SQL engine supply to one event:
  \<^item> \<open>JSON_parse\<close>: \<^verbatim>\<open>JSON.parse\<close>, \<open>None\<close> where it throws a \<^verbatim>\<open>SyntaxError\<close>;
  \<^item> \<open>Date_now\<close>: \<^verbatim>\<open>Date.now()\<close>; \<open>new_Date_now\<close>: the ISO text of \<^verbatim>\<open>new Date()\<close>;
  \<^item> \<open>new_Date\<close>: the constructor \<^verbatim>\<open>new Date(value)\<close>;
  \<^item> \<open>CURRENT_TIMESTAMP\<close>: the time SQLite writes for \<^verbatim>\<open>CURRENT_TIMESTAMP\<close>;
  \<^item> \<open>run_rejects location table\<close>: whether \<^verbatim>\<open>db.run\<close> throws on the \<^verbatim>\<open>INSERT\<close> of
    the location into the \<^verbatim>\<open>locations\<close> table (\<^verbatim>\<open>id TEXT PRIMARY KEY\<close>, the
    \<^verbatim>\<open>NOT NULL\<close> columns, a value that cannot be bound);
  \<^item> \<open>number_as_text\<close>: the text a \<^verbatim>\<open>TEXT\<close> column keeps for a number;
  \<^item> \<open>text_as_number\<close>: the number a \<^verbatim>\<open>REAL\<close> column keeps for a text that reads as a
    number, \<open>None\<close> for a text that does not (it is kept as text);
  \<^item> \<open>writeFileSync_fails\<close>: whether \<^verbatim>\<open>fs.writeFileSync\<close> throws in \<^verbatim>\<open>saveToFile\<close>.
\<close>

record env =
  JSON_parse :: "string \<Rightarrow> json option"
  Date_now :: nat
  new_Date_now :: string
  new_Date :: "json \<Rightarrow> Date"
  CURRENT_TIMESTAMP :: string
  run_rejects :: "LocationUpdate \<Rightarrow> LocationRow list \<Rightarrow> bool"
  number_as_text :: "string \<Rightarrow> string"
  text_as_number :: "string \<Rightarrow> string option"
  writeFileSync_fails :: bool

text \<open>
  What a column of \<^verbatim>\<open>TEXT\<close> affinity and a column of \<^verbatim>\<open>REAL\<close> affinity keep of a bound
  value. The binding of sql.js passes a boolean as the number 1 or 0. A string, a
  \<^verbatim>\<open>null\<close> and a blob stay as they are in a \<^verbatim>\<open>TEXT\<close> column; a number and a
  \<^verbatim>\<open>null\<close> stay as they are in a \<^verbatim>\<open>REAL\<close> column.
\<close>

definition text_affinity :: "env \<Rightarrow> json \<Rightarrow> json" where
  "text_affinity e v =
     (case v of
        JNum n \<Rightarrow> JStr (number_as_text e n)
      | JBool b \<Rightarrow> JStr (number_as_text e (if b then ''1'' else ''0''))
      | _ \<Rightarrow> v)"

definition real_affinity :: "env \<Rightarrow> json \<Rightarrow> json" where
  "real_affinity e v =
     (case v of
        JStr s \<Rightarrow> (case text_as_number e s of None \<Rightarrow> JStr s | Some n \<Rightarrow> JNum n)
      | JBool b \<Rightarrow> JNum (if b then ''1'' else ''0'')
      | _ \<Rightarrow> v)"

text \<open>
  The comparison \<^verbatim>\<open>id = ?\<close> of SQL between a kept value and a bound one already
  converted: \<^verbatim>\<open>NULL\<close> equals nothing.
\<close>

definition sql_eq :: "json \<Rightarrow> json \<Rightarrow> bool" where
  "sql_eq kept v = (kept \<noteq> JNull \<and> v \<noteq> JNull \<and> kept = v)"

text \<open>
  \<^verbatim>\<open>
  updateDeviceStatus(deviceId: string, status: 'online' | 'offline'): void {
    if (!this.db) return;
    const stmt = this.db.prepare(`SELECT id FROM devices WHERE id = ?`);
    stmt.bind([deviceId]);
    const exists = stmt.step();
    stmt.free();
    if (exists) {
      this.db.run(`UPDATE devices SET last_seen = CURRENT_TIMESTAMP, status = ? WHERE id = ?`, ...);
    } else {
      this.db.run(`INSERT INTO devices (id, last_seen, status) VALUES (?, CURRENT_TIMESTAMP, ?)`, ...);
    }
  }
  \<close>
  The service's \<^verbatim>\<open>db: Database | null\<close> is a \<open>Database option\<close>. The column
  \<^verbatim>\<open>devices.id\<close> is \<^verbatim>\<open>TEXT\<close>: the bound id is compared and stored after that
  conversion. The method is reached after the \<^verbatim>\<open>INSERT\<close> of \<^verbatim>\<open>insertLocation\<close> has
  bound the same id.
\<close>

definition updateDeviceStatus ::
  "env \<Rightarrow> json \<Rightarrow> presence \<Rightarrow> Database option \<Rightarrow> Database option" where
  "updateDeviceStatus e dev st this_db =
     (case this_db of
        None \<Rightarrow> None
      | Some d \<Rightarrow>
          let key = text_affinity e dev;
              exists = list_ex (\<lambda>r. sql_eq (id_d r) key) (devices d) in
          if exists then
            Some (d\<lparr>devices :=
                     map (\<lambda>r. if sql_eq (id_d r) key
                               then r\<lparr>last_seen := CURRENT_TIMESTAMP e, status := st\<rparr>
                               else r) (devices d)\<rparr>)
          else
            Some (d\<lparr>devices :=
                     devices d @ [\<lparr>id_d = key, last_seen = CURRENT_TIMESTAMP e, status = st\<rparr>]\<rparr>))"

text \<open>\<^verbatim>\<open>value ?? null\<close>\<close>

definition or_null :: "json \<Rightarrow> json" where
  "or_null v = (if v = JUndefined \<or> v = JNull then JNull else v)"

text \<open>
  \<^verbatim>\<open>
  insertLocation(location): void {
    if (!this.db) return;
    this.db.run(`INSERT INTO locations (id, device_id, latitude, longitude, timestamp,
                 accuracy, speed, heading, altitude) VALUES (?, ?, ?, ?, ?, ?, ?, ?, ?)`,
      [location.id, location.deviceId, location.latitude, location.longitude,
       location.timestamp.toISOString(), location.accuracy ?? null, location.speed ?? null,
       location.heading ?? null, location.altitude ?? null]);
    // Update device last seen
    this.updateDeviceStatus(location.deviceId, 'online');
    this.saveToFile();
  }
  \<close>
  An exception leaves the method with the database as it is at that point (\<open>Inl\<close>):
  unchanged when \<^verbatim>\<open>db.run\<close> throws, with the row stored and the device marked when
  the \<^verbatim>\<open>writeFileSync\<close> of \<^verbatim>\<open>saveToFile\<close> throws. The file itself is read by a
  restart only and is not part of the state.
\<close>

text \<open>The row that the \<^verbatim>\<open>INSERT\<close> stores for a location.\<close>

definition stored_row :: "env \<Rightarrow> LocationUpdate \<Rightarrow> LocationRow" where
  "stored_row e location =
     \<lparr>id_r = id_u location,
      device_id = text_affinity e (deviceId location),
      latitude_r = real_affinity e (latitude location),
      longitude_r = real_affinity e (longitude location),
      timestamp_r = timestamp location,
      accuracy_r = real_affinity e (or_null (accuracy location)),
      speed_r = real_affinity e (or_null (speed location)),
      heading_r = real_affinity e (or_null (heading location)),
      altitude_r = real_affinity e (or_null (altitude location))\<rparr>"

definition insertLocation ::
  "env \<Rightarrow> LocationUpdate \<Rightarrow> Database option
     \<Rightarrow> (error \<times> Database option) + Database option" where
  "insertLocation e location this_db =
     (case this_db of
        None \<Rightarrow> Inr None
      | Some d \<Rightarrow>
          if run_rejects e location (locations d) then Inl (SqlError, Some d)
          else
            let stored = Some (d\<lparr>locations := locations d @ [stored_row e location]\<rparr>);
                marked = updateDeviceStatus e (deviceId location) online stored in
            if writeFileSync_fails e then Inl (FsError, marked) else Inr marked)"

text \<open>
  \<^verbatim>\<open>
  getLocationsByTimeRange(from: Date, to: Date): LocationRow[] {
    if (!this.db) return [];
    const stmt = this.db.prepare(
      `SELECT * FROM locations WHERE timestamp >= ? AND timestamp <= ? ORDER BY timestamp DESC`);
    stmt.bind([from.toISOString(), to.toISOString()]);
    const rows: LocationRow[] = [];
    while (stmt.step()) { rows.push(this.rowToLocation(stmt.getAsObject())); }
    stmt.free();
    return rows;
  }
  \<close>
  The column is \<^verbatim>\<open>TEXT\<close>, so the comparisons are those of strings, byte by byte (the
  order of \<open>char list\<close>). Rows of equal timestamp come in an order SQL leaves open; the
  model takes the reverse of a stable ascending sort.
\<close>

definition getLocationsByTimeRange ::
  "Date \<Rightarrow> Date \<Rightarrow> Database option \<Rightarrow> error + LocationRow list" where
  "getLocationsByTimeRange from_date to_date this_db =
     (case this_db of
        None \<Rightarrow> Inr []
      | Some d \<Rightarrow>
          (case toISOString from_date of
             Inl err \<Rightarrow> Inl err
           | Inr lo \<Rightarrow>
               (case toISOString to_date of
                  Inl err \<Rightarrow> Inl err
                | Inr hi \<Rightarrow>
                    Inr (rev (sort_key timestamp_r
                           (filter (\<lambda>r. timestamp_r r \<ge> lo \<and> timestamp_r r \<le> hi)
                              (locations d)))))))"

section \<open>The hub (setupSignalR)\<close>

text \<open>What \<^verbatim>\<open>console.log\<close> and \<^verbatim>\<open>console.error\<close> were given.\<close>

datatype console_line =
    console_log string
  | console_log_value string json
  | console_error string error

text \<open>
  The state of the hub: the module variable \<^verbatim>\<open>connectedClients\<close>, the storage service
  given to \<^verbatim>\<open>setupSignalR\<close>, and the console. The \<^verbatim>\<open>client\<close> object that the
  handlers of a connection close over is the object the registry holds under the
  connection's id (ids are taken not to collide): the model keeps it in the registry and
  the handlers name it by that id.
\<close>

record hub =
  connectedClients :: "(string \<times> ConnectedClient) list"
  db :: "Database option"
  console :: "console_line list"

definition update_client :: "string \<Rightarrow> (ConnectedClient \<Rightarrow> ConnectedClient) \<Rightarrow> hub \<Rightarrow> hub" where
  "update_client clientId f h =
     h\<lparr>connectedClients :=
         map (\<lambda>(k, client). if k = clientId then (k, f client) else (k, client))
           (connectedClients h)\<rparr>"

definition log_line :: "console_line \<Rightarrow> hub \<Rightarrow> hub" where
  "log_line l h = h\<lparr>console := console h @ [l]\<rparr>"

text \<open>
  The message of \<^verbatim>\<open>broadcastLocation\<close>:
  \<^verbatim>\<open>
  const message = {
    type: 'ReceiveLocation',
    ...location,
    timestamp: location.timestamp instanceof Date
      ? location.timestamp.toISOString() : location.timestamp,
  };
  \<close>
\<close>

definition ReceiveLocation :: "LocationUpdate \<Rightarrow> json" where
  "ReceiveLocation location =
     JObj [(''type'', JStr ''ReceiveLocation''),
           (''id'', JStr (id_u location)),
           (''deviceId'', deviceId location),
           (''latitude'', latitude location),
           (''longitude'', longitude location),
           (''timestamp'', JStr (timestamp location)),
           (''accuracy'', accuracy location),
           (''speed'', speed location),
           (''heading'', heading location),
           (''altitude'', altitude location)]"

text \<open>
  \<^verbatim>\<open>
  connectedClients.forEach((client) => {
    // Send to all clients or only those subscribed to this device
    if (client.deviceGroups.size === 0 || client.deviceGroups.has(location.deviceId)) {
      sendToClient(client.socket, message);
    }
  });
  \<close>
\<close>

definition broadcastLocation :: "LocationUpdate \<Rightarrow> hub \<Rightarrow> hub" where
  "broadcastLocation location h =
     (let message = ReceiveLocation location in
      h\<lparr>connectedClients :=
          map (\<lambda>(k, client).
                 if Set_size (deviceGroups client) = 0
                    \<or> Set_has (deviceGroups client) (deviceId location)
                 then (k, client\<lparr>socket := sendToClient (socket client) message\<rparr>)
                 else (k, client))
            (connectedClients h)\<rparr>)"

text \<open>
  \<^verbatim>\<open>
  export function broadcastDeviceStatus(deviceId: string, status: 'online' | 'offline'): void {
    const message = { type: 'DeviceStatusChanged', deviceId, status };
    connectedClients.forEach((client) => {
      sendToClient(client.socket, message);
    });
  }
  \<close>
\<close>

definition DeviceStatusChanged :: "string \<Rightarrow> presence \<Rightarrow> json" where
  "DeviceStatusChanged dev st =
     JObj [(''type'', JStr ''DeviceStatusChanged''),
           (''deviceId'', JStr dev),
           (''status'', JStr (case st of online \<Rightarrow> ''online'' | offline \<Rightarrow> ''offline''))]"

definition broadcastDeviceStatus :: "string \<Rightarrow> presence \<Rightarrow> hub \<Rightarrow> hub" where
  "broadcastDeviceStatus dev st h =
     (let message = DeviceStatusChanged dev st in
      h\<lparr>connectedClients :=
          map (\<lambda>(k, client). (k, client\<lparr>socket := sendToClient (socket client) message\<rparr>))
            (connectedClients h)\<rparr>)"

text \<open>The element of \<^verbatim>\<open>locations.map((loc) => ({ id: loc.id, deviceId: loc.device_id, ... }))\<close>.\<close>

definition row_message :: "LocationRow \<Rightarrow> json" where
  "row_message loc =
     JObj [(''id'', JStr (id_r loc)),
           (''deviceId'', device_id loc),
           (''latitude'', latitude_r loc),
           (''longitude'', longitude_r loc),
           (''timestamp'', JStr (timestamp_r loc)),
           (''accuracy'', accuracy_r loc),
           (''speed'', speed_r loc),
           (''heading'', heading_r loc),
           (''altitude'', altitude_r loc)]"

definition ReceiveLocations :: "LocationRow list \<Rightarrow> json" where
  "ReceiveLocations rows =
     JObj [(''type'', JStr ''ReceiveLocations''), (''locations'', JArr (map row_message rows))]"

text \<open>
  The \<^verbatim>\<open>const location: LocationUpdate = { ... }\<close> of the \<^verbatim>\<open>SendLocation\<close> case:
  \<^verbatim>\<open>
  id: `${message.deviceId}_${Date.now()}`,
  deviceId: message.deviceId,
  latitude: message.latitude,
  longitude: message.longitude,
  timestamp: new Date(),
  accuracy: message.accuracy,
  speed: message.speed,
  heading: message.heading,
  altitude: message.altitude,
  \<close>
\<close>

definition SendLocation_update :: "env \<Rightarrow> json \<Rightarrow> LocationUpdate" where
  "SendLocation_update e message =
     \<lparr>id_u = js_String (js_get message ''deviceId'') @ ''_'' @ digits (Date_now e),
      deviceId = js_get message ''deviceId'',
      latitude = js_get message ''latitude'',
      longitude = js_get message ''longitude'',
      timestamp = new_Date_now e,
      accuracy = js_get message ''accuracy'',
      speed = js_get message ''speed'',
      heading = js_get message ''heading'',
      altitude = js_get message ''altitude''\<rparr>"

text \<open>
  \<^verbatim>\<open>handleClientMessage(client, message, db)\<close>: the \<^verbatim>\<open>switch (message.type)\<close> with its
  cases in the order of the source. \<open>Inl\<close> is the exception that leaves the function,
  with the state of the hub at that point.
\<close>

definition handleClientMessage ::
  "env \<Rightarrow> string \<Rightarrow> json \<Rightarrow> hub \<Rightarrow> (error \<times> hub) + hub" where
  "handleClientMessage e clientId message h =
     (case js_prop message ''type'' of
        Inl err \<Rightarrow> Inl (err, h)
      | Inr type \<Rightarrow>
          if type = JStr ''SendLocation'' then
            (let location = SendLocation_update e message in
             case insertLocation e location (db h) of
               Inl (err, db') \<Rightarrow> Inl (err, h\<lparr>db := db'\<rparr>)
             | Inr db' \<Rightarrow> Inr (broadcastLocation location (h\<lparr>db := db'\<rparr>)))
          else if type = JStr ''JoinDeviceGroup'' then
            Inr (log_line
                   (console_log (''Client '' @ clientId @ '' joined device group: ''
                                  @ js_String (js_get message ''deviceId'')))
                   (update_client clientId
                      (\<lambda>client. client\<lparr>deviceGroups :=
                                    Set_add (deviceGroups client) (js_get message ''deviceId'')\<rparr>)
                      h))
          else if type = JStr ''LeaveDeviceGroup'' then
            Inr (log_line
                   (console_log (''Client '' @ clientId @ '' left device group: ''
                                  @ js_String (js_get message ''deviceId'')))
                   (update_client clientId
                      (\<lambda>client. client\<lparr>deviceGroups :=
                                    Set_delete (deviceGroups client) (js_get message ''deviceId'')\<rparr>)
                      h))
          else if type = JStr ''GetDeviceHistory'' then
            (let from_date = new_Date e (js_get message ''from'');
                 to_date = new_Date e (js_get message ''to'') in
             case getLocationsByTimeRange from_date to_date (db h) of
               Inl err \<Rightarrow> Inl (err, h)
             | Inr rows \<Rightarrow>
                 Inr (update_client clientId
                        (\<lambda>client. client\<lparr>socket :=
                                      sendToClient (socket client) (ReceiveLocations rows)\<rparr>)
                        h))
          else if type = JStr ''ping'' then
            Inr (update_client clientId
                   (\<lambda>client. client\<lparr>socket :=
                                 sendToClient (socket client) (JObj [(''type'', JStr ''pong'')])\<rparr>)
                   h)
          else
            Inr (log_line (console_log_value ''Unknown message type:'' type) h))"

text \<open>
  The handlers that \<^verbatim>\<open>wss.on('connection', ...)\<close> installs. \<open>on_connection\<close> takes
  the id that \<^verbatim>\<open>generateClientId()\<close> returned; the new socket is open.
  \<^verbatim>\<open>
  ws.on('message', (data: Buffer) => {
    try {
      const message = JSON.parse(data.toString());
      handleClientMessage(client, message, db);
    } catch (error) {
      console.error('Error parsing message:', error);
    }
  });
  ws.on('close', () => {
    connectedClients.delete(clientId);
    console.log(`Client disconnected: ${clientId}. Total clients: ${connectedClients.size}`);
  });
  \<close>
\<close>

definition on_connection :: "string \<Rightarrow> hub \<Rightarrow> hub" where
  "on_connection clientId h =
     (let client = \<lparr>id_c = clientId, socket = \<lparr>readyState = OPEN, sent = []\<rparr>,
                    deviceGroups = []\<rparr>;
          h1 = h\<lparr>connectedClients := Map_set (connectedClients h) clientId client\<rparr>;
          h2 = log_line (console_log (''Client connected: '' @ clientId @ ''. Total clients: ''
                                       @ digits (Map_size (connectedClients h1)))) h1 in
      update_client clientId
        (\<lambda>client. client\<lparr>socket :=
                      sendToClient (socket client)
                        (JObj [(''type'', JStr ''connected''), (''connectionId'', JStr clientId)])\<rparr>)
        h2)"

definition on_message :: "env \<Rightarrow> string \<Rightarrow> string \<Rightarrow> hub \<Rightarrow> hub" where
  "on_message e clientId data h =
     (case JSON_parse e data of
        None \<Rightarrow> log_line (console_error ''Error parsing message:'' SyntaxError) h
      | Some message \<Rightarrow>
          (case handleClientMessage e clientId message h of
             Inl (err, h') \<Rightarrow> log_line (console_error ''Error parsing message:'' err) h'
           | Inr h' \<Rightarrow> h'))"

definition on_close :: "string \<Rightarrow> hub \<Rightarrow> hub" where
  "on_close clientId h =
     (let h1 = h\<lparr>connectedClients := Map_delete (connectedClients h) clientId\<rparr> in
      log_line (console_log (''Client disconnected: '' @ clientId @ ''. Total clients: ''
                              @ digits (Map_size (connectedClients h1)))) h1)"

text \<open>
  Whether \<^verbatim>\<open>message.type\<close> is one of the \<^verbatim>\<open>case\<close> labels of the \<^verbatim>\<open>switch\<close> in
  \<^verbatim>\<open>handleClientMessage\<close>; a message whose \<^verbatim>\<open>type\<close> cannot be read has none.
\<close>

definition has_recognized_type :: "json \<Rightarrow> bool" where
  "has_recognized_type message =
     (case js_prop message ''type'' of
        Inl err \<Rightarrow> False
      | Inr type \<Rightarrow> type \<in> set (map JStr [''SendLocation'', ''JoinDeviceGroup'',
                                       ''LeaveDeviceGroup'', ''GetDeviceHistory'', ''ping'']))"

section \<open>Concrete states and messages\<close>

text \<open>A location update for the device of the given name, without optional telemetry.\<close>

definition update_for :: "string \<Rightarrow> LocationUpdate" where
  "update_for dev =
     \<lparr>id_u = dev @ ''_1700000000000'', deviceId = JStr dev,
      latitude = JNum ''-33.9'', longitude = JNum ''18.4'',
      timestamp = ''2023-11-14T22:13:20.000Z'',
      accuracy = JUndefined, speed = JUndefined, heading = JUndefined,
      altitude = JUndefined\<rparr>"

text \<open>A connection with the given id, transport state and subscriptions, nothing sent yet.\<close>

definition client_of :: "string \<Rightarrow> readyState \<Rightarrow> json list \<Rightarrow> ConnectedClient" where
  "client_of clientId state groups =
     \<lparr>id_c = clientId, socket = \<lparr>readyState = state, sent = []\<rparr>, deviceGroups = groups\<rparr>"

text \<open>A hub with the given registry, no storage yet and an empty console.\<close>

definition hub_of :: "ConnectedClient list \<Rightarrow> hub" where
  "hub_of clients =
     \<lparr>connectedClients = map (\<lambda>client. (id_c client, client)) clients,
      db = None, console = []\<rparr>"

text \<open>
  Two \<^verbatim>\<open>SendLocation\<close> messages of the device \<^verbatim>\<open>dev-1\<close>: one with numbers, one
  whose latitude is the text of a number and whose accuracy is a text that is no number.
\<close>

definition SendLocation_numbers :: json where
  "SendLocation_numbers =
     JObj [(''type'', JStr ''SendLocation''), (''deviceId'', JStr ''dev-1''),
           (''latitude'', JNum ''-33.9''), (''longitude'', JNum ''18.4'')]"

definition SendLocation_texts :: json where
  "SendLocation_texts =
     JObj [(''type'', JStr ''SendLocation''), (''deviceId'', JStr ''dev-1''),
           (''latitude'', JStr ''-33.9''), (''longitude'', JNum ''18.4''),
           (''accuracy'', JStr ''abc'')]"

text \<open>
  A runtime for the examples: \<^verbatim>\<open>JSON.parse\<close> on the six frames below (any other text
  is taken as malformed), \<^verbatim>\<open>new Date\<close> on two ISO texts and on \<^verbatim>\<open>"yesterday"\<close>, which
  JavaScript does not parse as a date, an engine that rejects a row whose id the table
  already has (the primary key), the conversions of the texts the examples store, and a
  file system that accepts the write.
\<close>

definition parse_frame :: "string \<Rightarrow> json option" where
  \<open>parse_frame data =
     (if data = ''{"type":"Dance"}'' then Some (JObj [(''type'', JStr ''Dance'')])
      else if data = ''null'' then Some JNull
      else if data = ''{"type":"SendLocation","deviceId":"dev-1","latitude":-33.9,"longitude":18.4}''
        then Some SendLocation_numbers
      else if data = ''{"type":"SendLocation","deviceId":"dev-1","latitude":"-33.9","longitude":18.4,"accuracy":"abc"}''
        then Some SendLocation_texts
      else if data = ''{"type":"GetDeviceHistory","from":"2024-01-02T00:00:00.000Z","to":"2024-01-01T00:00:00.000Z"}''
        then Some (JObj [(''type'', JStr ''GetDeviceHistory''),
                         (''from'', JStr ''2024-01-02T00:00:00.000Z''),
                         (''to'', JStr ''2024-01-01T00:00:00.000Z'')])
      else if data = ''{"type":"GetDeviceHistory","from":"yesterday","to":"2024-01-01T00:00:00.000Z"}''
        then Some (JObj [(''type'', JStr ''GetDeviceHistory''),
                         (''from'', JStr ''yesterday''),
                         (''to'', JStr ''2024-01-01T00:00:00.000Z'')])
      else None)\<close>

definition example_env :: env where
  "example_env =
     \<lparr>JSON_parse = parse_frame,
      Date_now = 1700000000000,
      new_Date_now = ''2023-11-14T22:13:20.000Z'',
      new_Date = (\<lambda>v. if v = JStr ''2024-01-01T00:00:00.000Z''
                         then Date ''2024-01-01T00:00:00.000Z''
                       else if v = JStr ''2024-01-02T00:00:00.000Z''
                         then Date ''2024-01-02T00:00:00.000Z''
                       else Invalid_Date),
      CURRENT_TIMESTAMP = ''2023-11-14 22:13:20'',
      run_rejects = (\<lambda>location table. list_ex (\<lambda>r. id_r r = id_u location) table),
      number_as_text = (\<lambda>n. n),
      text_as_number = (\<lambda>s. if s = ''-33.9'' then Some ''-33.9'' else None),
      writeFileSync_fails = False\<rparr>"

text \<open>The messages by which a client joins and leaves the group of a device.\<close>

definition JoinDeviceGroup :: "string \<Rightarrow> json" where
  "JoinDeviceGroup dev = JObj [(''type'', JStr ''JoinDeviceGroup''), (''deviceId'', JStr dev)]"

definition LeaveDeviceGroup :: "string \<Rightarrow> json" where
  "LeaveDeviceGroup dev = JObj [(''type'', JStr ''LeaveDeviceGroup''), (''deviceId'', JStr dev)]"

text \<open>The hub with storage opened on empty tables.\<close>

definition with_storage :: "hub \<Rightarrow> hub" where
  "with_storage h = h\<lparr>db := Some \<lparr>locations = [], devices = []\<rparr>\<rparr>"

section \<open>Properties of the reconnection schedule\<close>

text \<open>
  C3, as the claim states it, at the attempt count 10: the claim gives the delay
  \<open>min (1000 * 2 ^ 10) 30000 = 30000\<close>, the policy returns \<^verbatim>\<open>null\<close>.
\<close>

theorem C3_delay_at_ceiling_counterexample:
  "nextRetryDelayInMilliseconds 10 \<noteq> Some (min (1000 * 2 ^ 10) 30000)"
  by (simp add: nextRetryDelayInMilliseconds_def maxReconnectAttempts_def)

text \<open>
  C3, amended: for every retry attempt count \<open>n\<close> below the ceiling of 10 attempts the
  computed delay is \<open>min (1000 * 2 ^ n) 30000\<close> milliseconds, and the attempts 0 to 6
  yield 1000, 2000, 4000, 8000, 16000, 30000, 30000. From the attempt count 10 on no
  delay is computed.
\<close>

theorem C3_delay_below_ceiling:
  "(n < maxReconnectAttempts \<longrightarrow>
      nextRetryDelayInMilliseconds n = Some (min (1000 * 2 ^ n) 30000))
   \<and> map nextRetryDelayInMilliseconds [0, 1, 2, 3, 4, 5, 6]
       = [Some 1000, Some 2000, Some 4000, Some 8000, Some 16000, Some 30000, Some 30000]
   \<and> (maxReconnectAttempts \<le> n \<longrightarrow> nextRetryDelayInMilliseconds n = None)"
  by (simp add: nextRetryDelayInMilliseconds_def maxReconnectAttempts_def)

theorem C3_delay_below_ceiling_witness:
  "(3::nat) < maxReconnectAttempts \<and> nextRetryDelayInMilliseconds 3 = Some 8000
   \<and> maxReconnectAttempts \<le> 10 \<and> nextRetryDelayInMilliseconds 10 = None"
proof -
  have below: "(3::nat) < maxReconnectAttempts" and at: "maxReconnectAttempts \<le> 10"
    by (simp_all add: maxReconnectAttempts_def)
  from C3_delay_below_ceiling [of 3] below
  have "nextRetryDelayInMilliseconds 3 = Some (min (1000 * 2 ^ 3) 30000)"
    by blast
  then have d3: "nextRetryDelayInMilliseconds 3 = Some 8000"
    by simp
  from C3_delay_below_ceiling [of 10] at
  have d10: "nextRetryDelayInMilliseconds 10 = None"
    by blast
  from below at d3 d10 show ?thesis by blast
qed


section \<open>Properties of the reconnection controller\<close>

lemma schedule_retry_cases:
  "(attemptCount c < maxReconnectAttempts \<and> phase (schedule_retry c) = Reconnecting
      \<or> maxReconnectAttempts \<le> attemptCount c \<and> phase (schedule_retry c) = Closed)
   \<and> attemptCount (schedule_retry c) = attemptCount c
   \<and> attempts (schedule_retry c) = attempts c"
  by (simp add: schedule_retry_def nextRetryDelayInMilliseconds_def)

lemma step_keeps_bound:
  assumes "phase c \<noteq> Closed \<longrightarrow> attemptCount c < maxReconnectAttempts"
  shows "phase (controller_step c ev) \<noteq> Closed
           \<longrightarrow> attemptCount (controller_step c ev) < maxReconnectAttempts"
proof (cases ev)
  case Connection_dropped
  with assms schedule_retry_cases [of c] show ?thesis by auto
next
  case Retry_failed
  with assms
    schedule_retry_cases [of "c\<lparr>attemptCount := attemptCount c + 1, attempts := attempts c + 1\<rparr>"]
  show ?thesis by auto
next
  case Connect_succeeded
  with assms show ?thesis by (simp add: maxReconnectAttempts_def)
next
  case Retry_succeeded
  with assms show ?thesis by (simp add: maxReconnectAttempts_def)
qed (use assms in auto)

lemma run_keeps_bound:
  assumes "phase c \<noteq> Closed \<longrightarrow> attemptCount c < maxReconnectAttempts"
  shows "phase (controller_run c evs) \<noteq> Closed
           \<longrightarrow> attemptCount (controller_run c evs) < maxReconnectAttempts"
  using assms
proof (induction evs arbitrary: c)
  case Nil
  then show ?case by simp
next
  case (Cons ev evs)
  from Cons.IH [OF step_keeps_bound [OF Cons.prems]] show ?case by simp
qed

lemma closed_step:
  assumes "phase c = Closed"
  shows "phase (controller_step c ev) = Closed \<and> attempts (controller_step c ev) = attempts c"
  using assms by (cases ev) simp_all

lemma closed_run:
  assumes "phase c = Closed"
  shows "phase (controller_run c evs) = Closed \<and> attempts (controller_run c evs) = attempts c"
  using assms
proof (induction evs arbitrary: c)
  case Nil
  then show ?case by simp
next
  case (Cons ev evs)
  from closed_step [OF Cons.prems, of ev]
  have p: "phase (controller_step c ev) = Closed"
    and a: "attempts (controller_step c ev) = attempts c"
    by simp_all
  from Cons.IH [OF p] a show ?case by simp
qed

lemma last_failure_closes:
  assumes "phase c = Reconnecting" and "Suc (attemptCount c) = maxReconnectAttempts"
  shows "phase (controller_step c Retry_failed) = Closed
       \<and> attemptCount (controller_step c Retry_failed) = maxReconnectAttempts"
  using assms
    schedule_retry_cases [of "c\<lparr>attemptCount := attemptCount c + 1, attempts := attempts c + 1\<rparr>"]
  by auto

text \<open>
  C4: in every run of the reconnection controller from its start, whenever the count of
  consecutive failed retries has reached the ceiling \<open>maxReconnectAttempts = 10\<close> the
  controller is \<^verbatim>\<open>Closed\<close>; the failed retry that brings the count to the ceiling is
  the step that closes it; and from \<^verbatim>\<open>Closed\<close> on, whatever happens, the controller
  stays \<^verbatim>\<open>Closed\<close> and issues no further automatic connect attempt.
\<close>

theorem C4_closed_at_ceiling:
  "(maxReconnectAttempts \<le> attemptCount (controller_run controller_start evs)
      \<longrightarrow> phase (controller_run controller_start evs) = Closed)
   \<and> (phase c = Reconnecting \<and> Suc (attemptCount c) = maxReconnectAttempts
      \<longrightarrow> phase (controller_step c Retry_failed) = Closed
        \<and> attemptCount (controller_step c Retry_failed) = maxReconnectAttempts)
   \<and> (phase c = Closed
      \<longrightarrow> phase (controller_run c later) = Closed
        \<and> attempts (controller_run c later) = attempts c)
   \<and> maxReconnectAttempts = 10"
proof -
  have start: "phase controller_start \<noteq> Closed
                 \<longrightarrow> attemptCount controller_start < maxReconnectAttempts"
    by (simp add: controller_start_def maxReconnectAttempts_def)
  from run_keeps_bound [OF start, of evs]
  have a: "maxReconnectAttempts \<le> attemptCount (controller_run controller_start evs)
      \<longrightarrow> phase (controller_run controller_start evs) = Closed"
    by auto
  have b: "phase c = Reconnecting \<and> Suc (attemptCount c) = maxReconnectAttempts
      \<longrightarrow> phase (controller_step c Retry_failed) = Closed
        \<and> attemptCount (controller_step c Retry_failed) = maxReconnectAttempts"
    using last_failure_closes [of c] by blast
  have d: "phase c = Closed
      \<longrightarrow> phase (controller_run c later) = Closed
        \<and> attempts (controller_run c later) = attempts c"
    using closed_run [of c later] by blast
  have m: "maxReconnectAttempts = 10"
    by (rule maxReconnectAttempts_def)
  from a b d m show ?thesis by blast
qed


theorem C4_closed_at_ceiling_witness:
  "attemptCount (controller_run controller_start
      [Connect_called, Connect_succeeded, Connection_dropped,
       Retry_failed, Retry_failed, Retry_failed, Retry_failed, Retry_failed,
       Retry_failed, Retry_failed, Retry_failed, Retry_failed, Retry_failed]) = 10
   \<and> attempts (controller_run controller_start
      [Connect_called, Connect_succeeded, Connection_dropped,
       Retry_failed, Retry_failed, Retry_failed, Retry_failed, Retry_failed,
       Retry_failed, Retry_failed, Retry_failed, Retry_failed, Retry_failed]) = 10
   \<and> phase (controller_run controller_start
      [Connect_called, Connect_succeeded, Connection_dropped,
       Retry_failed, Retry_failed, Retry_failed, Retry_failed, Retry_failed,
       Retry_failed, Retry_failed, Retry_failed, Retry_failed, Retry_failed]) = Closed
   \<and> attempts (controller_run
        (controller_run controller_start
          [Connect_called, Connect_succeeded, Connection_dropped,
           Retry_failed, Retry_failed, Retry_failed, Retry_failed, Retry_failed,
           Retry_failed, Retry_failed, Retry_failed, Retry_failed, Retry_failed])
        [Retry_failed, Connection_dropped, Connect_called, Retry_succeeded]) = 10
   \<and> phase (controller_run controller_start
      [Connect_called, Connect_succeeded, Connection_dropped,
       Retry_failed, Retry_failed, Retry_failed, Retry_failed, Retry_failed,
       Retry_failed, Retry_failed, Retry_failed, Retry_failed]) = Reconnecting"
proof -
  let ?evs = "[Connect_called, Connect_succeeded, Connection_dropped,
       Retry_failed, Retry_failed, Retry_failed, Retry_failed, Retry_failed,
       Retry_failed, Retry_failed, Retry_failed, Retry_failed, Retry_failed]"
  let ?c = "controller_run controller_start ?evs"
  have count: "attemptCount ?c = 10" and issued: "attempts ?c = 10"
    by (simp_all add: controller_start_def schedule_retry_def
        nextRetryDelayInMilliseconds_def maxReconnectAttempts_def)
  have nine: "phase (controller_run controller_start
      [Connect_called, Connect_succeeded, Connection_dropped,
       Retry_failed, Retry_failed, Retry_failed, Retry_failed, Retry_failed,
       Retry_failed, Retry_failed, Retry_failed, Retry_failed]) = Reconnecting"
    by (simp add: controller_start_def schedule_retry_def
        nextRetryDelayInMilliseconds_def maxReconnectAttempts_def)
  have reached: "maxReconnectAttempts \<le> attemptCount ?c"
    unfolding count by (simp add: maxReconnectAttempts_def)
  note main = C4_closed_at_ceiling [of ?evs ?c
      "[Retry_failed, Connection_dropped, Connect_called, Retry_succeeded]"]
  from main reached have closed: "phase ?c = Closed"
    by blast
  with main have "attempts (controller_run ?c
        [Retry_failed, Connection_dropped, Connect_called, Retry_succeeded]) = attempts ?c"
    by blast
  then have still: "attempts (controller_run ?c
        [Retry_failed, Connection_dropped, Connect_called, Retry_succeeded]) = 10"
    unfolding issued .
  from count issued closed still nine show ?thesis by blast
qed


section \<open>Properties of the fanout\<close>

lemma broadcastLocation_entry:
  assumes "i < length (connectedClients h)" and "connectedClients h ! i = (k, client)"
  shows "connectedClients (broadcastLocation location h) ! i =
     (k, if Set_size (deviceGroups client) = 0 \<or> Set_has (deviceGroups client) (deviceId location)
         then client\<lparr>socket := sendToClient (socket client) (ReceiveLocation location)\<rparr>
         else client)"
  using assms by (simp add: broadcastLocation_def)

lemma broadcastLocation_keys:
  "map fst (connectedClients (broadcastLocation location h)) = map fst (connectedClients h)"
  by (simp add: broadcastLocation_def comp_def case_prod_unfold)

lemma broadcastLocation_rest:
  "db (broadcastLocation location h) = db h"
  "console (broadcastLocation location h) = console h"
  "length (connectedClients (broadcastLocation location h)) = length (connectedClients h)"
  by (simp_all add: broadcastLocation_def)

lemma broadcastDeviceStatus_entry:
  assumes "i < length (connectedClients h)" and "connectedClients h ! i = (k, client)"
  shows "connectedClients (broadcastDeviceStatus dev st h) ! i =
     (k, client\<lparr>socket := sendToClient (socket client) (DeviceStatusChanged dev st)\<rparr>)"
  using assms by (simp add: broadcastDeviceStatus_def)

lemma sendToClient_open:
  "readyState ws = OPEN \<Longrightarrow> sendToClient ws m = ws\<lparr>sent := sent ws @ [m]\<rparr>"
  by (simp add: sendToClient_def)

lemma sendToClient_not_open:
  "readyState ws \<noteq> OPEN \<Longrightarrow> sendToClient ws m = ws"
  by (simp add: sendToClient_def)

text \<open>
  C1, as the claim states it, at a registered connection whose subscription set is empty
  and whose transport is closing: the claim delivers the event, the hub sends nothing.
\<close>

theorem C1_closing_receive_all_counterexample:
  "connectedClients (hub_of [client_of ''c1'' CLOSING []]) = [(''c1'', client_of ''c1'' CLOSING [])]
   \<and> Set_size (deviceGroups (client_of ''c1'' CLOSING [])) = 0
   \<and> connectedClients (broadcastLocation (update_for ''B'') (hub_of [client_of ''c1'' CLOSING []]))
       = [(''c1'', client_of ''c1'' CLOSING [])]
   \<and> sent (socket (client_of ''c1'' CLOSING [])) = []"
  by (simp add: hub_of_def client_of_def broadcastLocation_def sendToClient_def Set_size_def)

text \<open>
  C1, amended: for every broadcast of an event for device D over any registry state, a
  registered connection whose transport is open is delivered the event, once, if and
  only if its subscription set is empty or contains D; a registered connection whose
  transport is not open is delivered nothing. (So an open connection subscribed only to
  "A" gets no delivery for a broadcast of "B" and exactly one for a broadcast of "A".)
\<close>

theorem C1_delivery_rule:
  assumes "i < length (connectedClients h)" and "connectedClients h ! i = (k, client)"
  shows "connectedClients (broadcastLocation location h) ! i =
     (k, if readyState (socket client) = OPEN
            \<and> (Set_size (deviceGroups client) = 0
                \<or> Set_has (deviceGroups client) (deviceId location))
         then client\<lparr>socket := (socket client)\<lparr>sent := sent (socket client)
                                                      @ [ReceiveLocation location]\<rparr>\<rparr>
         else client)"
proof (cases "readyState (socket client) = OPEN")
  case True
  then show ?thesis
    using broadcastLocation_entry [OF assms, of location]
    by (simp add: sendToClient_open)
next
  case False
  then show ?thesis
    using broadcastLocation_entry [OF assms, of location]
    by (simp add: sendToClient_not_open)
qed

theorem C1_delivery_rule_witness:
  "0 < length (connectedClients (hub_of [client_of ''c1'' OPEN [JStr ''A'']]))
   \<and> connectedClients (hub_of [client_of ''c1'' OPEN [JStr ''A'']]) ! 0
       = (''c1'', client_of ''c1'' OPEN [JStr ''A''])
   \<and> connectedClients (broadcastLocation (update_for ''B'')
          (hub_of [client_of ''c1'' OPEN [JStr ''A'']])) ! 0
       = (''c1'', client_of ''c1'' OPEN [JStr ''A''])
   \<and> connectedClients (broadcastLocation (update_for ''A'')
          (hub_of [client_of ''c1'' OPEN [JStr ''A'']])) ! 0
       = (''c1'', (client_of ''c1'' OPEN [JStr ''A''])
                    \<lparr>socket := \<lparr>readyState = OPEN, sent = [ReceiveLocation (update_for ''A'')]\<rparr>\<rparr>)"
proof -
  let ?c = "client_of ''c1'' OPEN [JStr ''A'']"
  let ?h = "hub_of [?c]"
  have len: "0 < length (connectedClients ?h)"
    by (simp add: hub_of_def)
  have entry: "connectedClients ?h ! 0 = (''c1'', ?c)"
    by (simp add: hub_of_def client_of_def)
  have groups: "deviceGroups ?c = [JStr ''A'']" and ready: "readyState (socket ?c) = OPEN"
    and sock: "socket ?c = \<lparr>readyState = OPEN, sent = []\<rparr>"
    by (simp_all add: client_of_def)
  have b: "\<not> (Set_size (deviceGroups ?c) = 0 \<or> Set_has (deviceGroups ?c) (deviceId (update_for ''B'')))"
    by (simp add: groups Set_size_def Set_has_def update_for_def)
  have a: "Set_has (deviceGroups ?c) (deviceId (update_for ''A''))"
    by (simp add: groups Set_has_def update_for_def)
  from C1_delivery_rule [OF len entry, of "update_for ''B''"] b
  have rb: "connectedClients (broadcastLocation (update_for ''B'') ?h) ! 0 = (''c1'', ?c)"
    by simp
  from C1_delivery_rule [OF len entry, of "update_for ''A''"] a ready
  have ra: "connectedClients (broadcastLocation (update_for ''A'') ?h) ! 0
     = (''c1'', ?c\<lparr>socket := \<lparr>readyState = OPEN, sent = [ReceiveLocation (update_for ''A'')]\<rparr>\<rparr>)"
    by (simp add: sock)
  from len entry rb ra show ?thesis by blast
qed


text \<open>
  C2, as the claim states it, at a registry of a connection \<open>c1\<close> whose socket is
  closing and an open connection \<open>c2\<close>: after the broadcast \<open>c1\<close> is still registered,
  whereas its close event would have removed it.
\<close>

theorem C2_dead_connection_stays_counterexample:
  "map fst (connectedClients (broadcastLocation (update_for ''B'')
              (hub_of [client_of ''c1'' CLOSING [], client_of ''c2'' OPEN []])))
     = [''c1'', ''c2'']
   \<and> map fst (connectedClients (on_close ''c1''
              (hub_of [client_of ''c1'' CLOSING [], client_of ''c2'' OPEN []])))
     = [''c2'']"
  by (simp add: hub_of_def client_of_def broadcastLocation_def on_close_def Map_delete_def
      log_line_def Let_def)

text \<open>
  C2, amended: for every broadcast, the send to a connection whose transport is not open
  is dropped silently (the broadcast raises nothing and writes nothing to the console,
  and leaves that connection as it was), every target connection whose transport is open
  is still delivered the event, and the broadcast leaves the registry with the same
  connections in the same order: a dead connection is removed by its own close event,
  not by the broadcast.
\<close>

theorem C2_broadcast_skips_dead_connections:
  "map fst (connectedClients (broadcastLocation location h)) = map fst (connectedClients h)
   \<and> console (broadcastLocation location h) = console h
   \<and> db (broadcastLocation location h) = db h
   \<and> (\<forall>i k client. i < length (connectedClients h) \<and> connectedClients h ! i = (k, client) \<longrightarrow>
         (readyState (socket client) \<noteq> OPEN \<longrightarrow>
            connectedClients (broadcastLocation location h) ! i = (k, client))
         \<and> (readyState (socket client) = OPEN
              \<and> (Set_size (deviceGroups client) = 0
                  \<or> Set_has (deviceGroups client) (deviceId location)) \<longrightarrow>
            connectedClients (broadcastLocation location h) ! i
              = (k, client\<lparr>socket := (socket client)\<lparr>sent := sent (socket client)
                                                  @ [ReceiveLocation location]\<rparr>\<rparr>)))"
proof (intro conjI allI impI)
  show "map fst (connectedClients (broadcastLocation location h)) = map fst (connectedClients h)"
    by (rule broadcastLocation_keys)
  show "console (broadcastLocation location h) = console h"
    by (rule broadcastLocation_rest)
  show "db (broadcastLocation location h) = db h"
    by (rule broadcastLocation_rest)
next
  fix i k client
  assume e: "i < length (connectedClients h) \<and> connectedClients h ! i = (k, client)"
    and dead: "readyState (socket client) \<noteq> OPEN"
  from e have "connectedClients (broadcastLocation location h) ! i =
     (k, if Set_size (deviceGroups client) = 0 \<or> Set_has (deviceGroups client) (deviceId location)
         then client\<lparr>socket := sendToClient (socket client) (ReceiveLocation location)\<rparr>
         else client)"
    by (intro broadcastLocation_entry) auto
  with dead show "connectedClients (broadcastLocation location h) ! i = (k, client)"
    by (simp add: sendToClient_not_open)
next
  fix i k client
  assume e: "i < length (connectedClients h) \<and> connectedClients h ! i = (k, client)"
    and live: "readyState (socket client) = OPEN
       \<and> (Set_size (deviceGroups client) = 0
           \<or> Set_has (deviceGroups client) (deviceId location))"
  from e have "connectedClients (broadcastLocation location h) ! i =
     (k, if Set_size (deviceGroups client) = 0 \<or> Set_has (deviceGroups client) (deviceId location)
         then client\<lparr>socket := sendToClient (socket client) (ReceiveLocation location)\<rparr>
         else client)"
    by (intro broadcastLocation_entry) auto
  with live show "connectedClients (broadcastLocation location h) ! i
      = (k, client\<lparr>socket := (socket client)\<lparr>sent := sent (socket client)
                                          @ [ReceiveLocation location]\<rparr>\<rparr>)"
    by (simp add: sendToClient_open)
qed

theorem C2_broadcast_skips_dead_connections_witness:
  "connectedClients (hub_of [client_of ''c1'' CLOSED [], client_of ''c2'' OPEN []]) ! 0
      = (''c1'', client_of ''c1'' CLOSED [])
   \<and> connectedClients (hub_of [client_of ''c1'' CLOSED [], client_of ''c2'' OPEN []]) ! 1
      = (''c2'', client_of ''c2'' OPEN [])
   \<and> connectedClients (broadcastLocation (update_for ''B'')
         (hub_of [client_of ''c1'' CLOSED [], client_of ''c2'' OPEN []])) ! 0
      = (''c1'', client_of ''c1'' CLOSED [])
   \<and> connectedClients (broadcastLocation (update_for ''B'')
         (hub_of [client_of ''c1'' CLOSED [], client_of ''c2'' OPEN []])) ! 1
      = (''c2'', (client_of ''c2'' OPEN [])
                   \<lparr>socket := \<lparr>readyState = OPEN, sent = [ReceiveLocation (update_for ''B'')]\<rparr>\<rparr>)"
proof -
  let ?c1 = "client_of ''c1'' CLOSED []"
  let ?c2 = "client_of ''c2'' OPEN []"
  let ?h = "hub_of [?c1, ?c2]"
  have e0: "0 < length (connectedClients ?h) \<and> connectedClients ?h ! 0 = (''c1'', ?c1)"
    and e1: "1 < length (connectedClients ?h) \<and> connectedClients ?h ! 1 = (''c2'', ?c2)"
    by (simp_all add: hub_of_def client_of_def)
  have dead: "readyState (socket ?c1) \<noteq> OPEN"
    and live: "readyState (socket ?c2) = OPEN
       \<and> (Set_size (deviceGroups ?c2) = 0
           \<or> Set_has (deviceGroups ?c2) (deviceId (update_for ''B'')))"
    and sock: "socket ?c2 = \<lparr>readyState = OPEN, sent = []\<rparr>"
    by (simp_all add: client_of_def Set_size_def)
  note main = C2_broadcast_skips_dead_connections [of "update_for ''B''" ?h]
  from main e0 dead
  have r0: "connectedClients (broadcastLocation (update_for ''B'') ?h) ! 0 = (''c1'', ?c1)"
    by blast
  from main e1 live
  have "connectedClients (broadcastLocation (update_for ''B'') ?h) ! 1
      = (''c2'', ?c2\<lparr>socket := (socket ?c2)\<lparr>sent := sent (socket ?c2)
                                          @ [ReceiveLocation (update_for ''B'')]\<rparr>\<rparr>)"
    by blast
  then have r1: "connectedClients (broadcastLocation (update_for ''B'') ?h) ! 1
      = (''c2'', ?c2\<lparr>socket := \<lparr>readyState = OPEN, sent = [ReceiveLocation (update_for ''B'')]\<rparr>\<rparr>)"
    by (simp add: sock)
  from e0 e1 r0 r1 show ?thesis by blast
qed

text \<open>
  C10: for every registry state and every device status event,
  \<^verbatim>\<open>broadcastDeviceStatus\<close> sends the \<^verbatim>\<open>DeviceStatusChanged\<close> message to every
  registered connection whose transport is open, whatever its subscription set; the
  subscription set is not read.
\<close>

theorem C10_status_reaches_every_open_connection:
  assumes "i < length (connectedClients h)" and "connectedClients h ! i = (k, client)"
    and "readyState (socket client) = OPEN"
  shows "connectedClients (broadcastDeviceStatus dev st h) ! i
      = (k, client\<lparr>socket := (socket client)\<lparr>sent := sent (socket client)
                                          @ [DeviceStatusChanged dev st]\<rparr>\<rparr>)"
  using broadcastDeviceStatus_entry [OF assms(1,2), of dev st] assms(3)
  by (simp add: sendToClient_open)

theorem C10_status_reaches_every_open_connection_witness:
  "0 < length (connectedClients (hub_of [client_of ''c1'' OPEN [JStr ''A'']]))
   \<and> connectedClients (hub_of [client_of ''c1'' OPEN [JStr ''A'']]) ! 0
       = (''c1'', client_of ''c1'' OPEN [JStr ''A''])
   \<and> readyState (socket (client_of ''c1'' OPEN [JStr ''A''])) = OPEN
   \<and> connectedClients (broadcastDeviceStatus ''B'' online
          (hub_of [client_of ''c1'' OPEN [JStr ''A'']])) ! 0
       = (''c1'', (client_of ''c1'' OPEN [JStr ''A''])
                    \<lparr>socket := \<lparr>readyState = OPEN, sent = [DeviceStatusChanged ''B'' online]\<rparr>\<rparr>)"
proof -
  let ?c = "client_of ''c1'' OPEN [JStr ''A'']"
  let ?h = "hub_of [?c]"
  have len: "0 < length (connectedClients ?h)"
    by (simp add: hub_of_def)
  have entry: "connectedClients ?h ! 0 = (''c1'', ?c)"
    by (simp add: hub_of_def client_of_def)
  have ready: "readyState (socket ?c) = OPEN"
    and sock: "socket ?c = \<lparr>readyState = OPEN, sent = []\<rparr>"
    by (simp_all add: client_of_def)
  from C10_status_reaches_every_open_connection [OF len entry ready, of "''B''" online]
  have "connectedClients (broadcastDeviceStatus ''B'' online ?h) ! 0
     = (''c1'', ?c\<lparr>socket := \<lparr>readyState = OPEN, sent = [DeviceStatusChanged ''B'' online]\<rparr>\<rparr>)"
    by (simp add: sock)
  with len entry ready show ?thesis by blast
qed


section \<open>Properties of the message handlers\<close>

lemma handle_unrecognized:
  assumes "\<not> has_recognized_type message"
  shows "(\<exists>err. handleClientMessage e clientId message h = Inl (err, h))
       \<or> (\<exists>type. handleClientMessage e clientId message h
               = Inr (log_line (console_log_value ''Unknown message type:'' type) h))"
proof (cases "js_prop message ''type''")
  case (Inl err)
  then show ?thesis by (simp add: handleClientMessage_def)
next
  case (Inr type)
  with assms have "type \<noteq> JStr ''SendLocation''" "type \<noteq> JStr ''JoinDeviceGroup''"
     "type \<noteq> JStr ''LeaveDeviceGroup''" "type \<noteq> JStr ''GetDeviceHistory''"
     "type \<noteq> JStr ''ping''"
    by (auto simp add: has_recognized_type_def)
  with Inr show ?thesis by (auto simp add: handleClientMessage_def)
qed

text \<open>
  C5: an inbound frame that \<^verbatim>\<open>JSON.parse\<close> rejects, or that parses to a message
  whose type is none of the recognized tags, has one effect only: one line on the
  console. Nothing is sent, no socket changes state, the registry and the storage are as
  before, so every connection is served afterwards as it was before.
\<close>

theorem C5_bad_frame_is_logged_and_dropped:
  assumes "JSON_parse e data = None
           \<or> (\<exists>message. JSON_parse e data = Some message \<and> \<not> has_recognized_type message)"
  shows "\<exists>line. on_message e clientId data h = h\<lparr>console := console h @ [line]\<rparr>"
proof -
  from assms consider (malformed) "JSON_parse e data = None"
    | (unknown) message where "JSON_parse e data = Some message"
        "\<not> has_recognized_type message"
    by auto
  then have "\<exists>line. on_message e clientId data h = log_line line h"
  proof cases
    case malformed
    then show ?thesis by (auto simp add: on_message_def)
  next
    case unknown
    from handle_unrecognized [OF unknown(2), of e clientId h] unknown(1)
    show ?thesis by (auto simp add: on_message_def)
  qed
  then show ?thesis by (simp add: log_line_def)
qed

theorem C5_bad_frame_is_logged_and_dropped_witness:
  \<open>JSON_parse example_env ''{not json'' = None
   \<and> (\<exists>line. on_message example_env ''c1'' ''{not json'' (hub_of [client_of ''c1'' OPEN []])
        = (hub_of [client_of ''c1'' OPEN []])\<lparr>console := [line]\<rparr>)
   \<and> JSON_parse example_env ''{"type":"Dance"}'' = Some (JObj [(''type'', JStr ''Dance'')])
   \<and> \<not> has_recognized_type (JObj [(''type'', JStr ''Dance'')])
   \<and> (\<exists>line. on_message example_env ''c1'' ''{"type":"Dance"}'' (hub_of [client_of ''c1'' OPEN []])
        = (hub_of [client_of ''c1'' OPEN []])\<lparr>console := [line]\<rparr>)
   \<and> JSON_parse example_env ''null'' = Some JNull
   \<and> \<not> has_recognized_type JNull
   \<and> (\<exists>line. on_message example_env ''c1'' ''null'' (hub_of [client_of ''c1'' OPEN []])
        = (hub_of [client_of ''c1'' OPEN []])\<lparr>console := [line]\<rparr>)\<close>
proof -
  let ?h = "hub_of [client_of ''c1'' OPEN []]"
  have empty: "console ?h = []"
    by (simp add: hub_of_def)
  have p1: \<open>JSON_parse example_env ''{not json'' = None\<close>
    by (simp add: example_env_def parse_frame_def)
  have p2: \<open>JSON_parse example_env ''{"type":"Dance"}'' = Some (JObj [(''type'', JStr ''Dance'')])\<close>
    by (simp add: example_env_def parse_frame_def)
  have p3: \<open>JSON_parse example_env ''null'' = Some JNull\<close>
    by (simp add: example_env_def parse_frame_def)
  have u2: "\<not> has_recognized_type (JObj [(''type'', JStr ''Dance'')])"
    by (simp add: has_recognized_type_def)
  have u3: "\<not> has_recognized_type JNull"
    by (simp add: has_recognized_type_def)
  from C5_bad_frame_is_logged_and_dropped [of example_env \<open>''{not json''\<close> "''c1''" ?h] p1
  have r1: \<open>\<exists>line. on_message example_env ''c1'' ''{not json'' ?h = ?h\<lparr>console := [line]\<rparr>\<close>
    by (simp add: empty)
  from C5_bad_frame_is_logged_and_dropped [of example_env \<open>''{"type":"Dance"}''\<close> "''c1''" ?h] p2 u2
  have r2: \<open>\<exists>line. on_message example_env ''c1'' ''{"type":"Dance"}'' ?h = ?h\<lparr>console := [line]\<rparr>\<close>
    by (simp add: empty)
  from C5_bad_frame_is_logged_and_dropped [of example_env \<open>''null''\<close> "''c1''" ?h] p3 u3
  have r3: \<open>\<exists>line. on_message example_env ''c1'' ''null'' ?h = ?h\<lparr>console := [line]\<rparr>\<close>
    by (simp add: empty)
  from p1 p2 p3 u2 u3 r1 r2 r3 show ?thesis by blast
qed


section \<open>Properties of the subscriptions\<close>

lemma Set_add_delete:
  assumes "\<not> Set_has s (JStr d)"
  shows "Set_delete (Set_add s (JStr d)) (JStr d) = s"
  using assms by (auto simp add: Set_add_def Set_delete_def Set_has_def filter_id_conv)

lemma Set_add_twice: "Set_add (Set_add s (JStr d)) (JStr d) = Set_add s (JStr d)"
  by (auto simp add: Set_add_def Set_has_def)

lemma Set_delete_absent:
  assumes "\<not> Set_has s (JStr d)"
  shows "Set_delete s (JStr d) = s"
  using assms by (auto simp add: Set_delete_def Set_has_def filter_id_conv)

lemma clients_update_client:
  "connectedClients (update_client c f h) =
     map (\<lambda>(k, client). if k = c then (k, f client) else (k, client)) (connectedClients h)"
  by (simp add: update_client_def)

lemma clients_log_line: "connectedClients (log_line l h) = connectedClients h"
  by (simp add: log_line_def)

lemma db_log_line: "db (log_line l h) = db h"
  by (simp add: log_line_def)

lemma db_update_client: "db (update_client c f h) = db h"
  by (simp add: update_client_def)

lemma broadcastLocation_cong:
  "connectedClients h = connectedClients h' \<Longrightarrow>
   connectedClients (broadcastLocation location h) = connectedClients (broadcastLocation location h')"
  by (simp add: broadcastLocation_def)

lemma handle_join:
  assumes "js_prop m ''type'' = Inr (JStr ''JoinDeviceGroup'')"
  shows "handleClientMessage e c m h =
     Inr (log_line (console_log (''Client '' @ c @ '' joined device group: ''
                                  @ js_String (js_get m ''deviceId'')))
            (update_client c
               (\<lambda>client. client\<lparr>deviceGroups := Set_add (deviceGroups client) (js_get m ''deviceId'')\<rparr>) h))"
  using assms by (simp add: handleClientMessage_def)

lemma handle_leave:
  assumes "js_prop m ''type'' = Inr (JStr ''LeaveDeviceGroup'')"
  shows "handleClientMessage e c m h =
     Inr (log_line (console_log (''Client '' @ c @ '' left device group: ''
                                  @ js_String (js_get m ''deviceId'')))
            (update_client c
               (\<lambda>client. client\<lparr>deviceGroups := Set_delete (deviceGroups client) (js_get m ''deviceId'')\<rparr>) h))"
  using assms by (simp add: handleClientMessage_def)

lemma map_entries_id:
  assumes "\<And>k client. (k, client) \<in> set xs \<Longrightarrow> k = c \<Longrightarrow> f client = client"
  shows "map (\<lambda>(k, client). if k = c then (k, f client) else (k, client)) xs = xs"
  using assms by (induction xs) auto

lemma map_entries_twice:
  "map (\<lambda>(k, client). if k = c then (k, g client) else (k, client))
     (map (\<lambda>(k, client). if k = c then (k, f client) else (k, client)) xs)
   = map (\<lambda>(k, client). if k = c then (k, g (f client)) else (k, client)) xs"
  by (induction xs) auto

text \<open>
  C9: for a device id \<open>d\<close> and a connection \<open>c\<close>, \<^verbatim>\<open>JoinDeviceGroup{d}\<close> followed by
  \<^verbatim>\<open>LeaveDeviceGroup{d}\<close> are both handled (\<open>h1\<close>, \<open>h2\<close>), a second join after the
  first (\<open>h3\<close>) leaves the registry as the first join left it, and, when the subscription
  set of \<open>c\<close> did not contain \<open>d\<close>: the registry and the storage after join and leave are
  those before, hence every later broadcast delivers as if \<open>c\<close> had never joined, and a
  leave without a join (\<open>h4\<close>) leaves the registry unchanged. Device ids are strings,
  as the source types them (\<^verbatim>\<open>deviceGroups: Set<string>\<close>).
\<close>

theorem C9_join_leave_roundtrip:
  assumes join: "js_prop mj ''type'' = Inr (JStr ''JoinDeviceGroup'')"
                "js_get mj ''deviceId'' = JStr d"
      and leave: "js_prop ml ''type'' = Inr (JStr ''LeaveDeviceGroup'')"
                 "js_get ml ''deviceId'' = JStr d"
  shows "\<exists>h1 h2 h3 h4.
           handleClientMessage e c mj h = Inr h1
         \<and> handleClientMessage e c ml h1 = Inr h2
         \<and> handleClientMessage e c mj h1 = Inr h3
         \<and> handleClientMessage e c ml h = Inr h4
         \<and> connectedClients h3 = connectedClients h1
         \<and> ((\<forall>(k, client) \<in> set (connectedClients h).
                 k = c \<longrightarrow> \<not> Set_has (deviceGroups client) (JStr d))
              \<longrightarrow> connectedClients h2 = connectedClients h \<and> db h2 = db h
                \<and> (\<forall>location. connectedClients (broadcastLocation location h2)
                                = connectedClients (broadcastLocation location h))
                \<and> connectedClients h4 = connectedClients h)"
proof -
  let ?add = "\<lambda>client. client\<lparr>deviceGroups := Set_add (deviceGroups client) (JStr d)\<rparr>"
  let ?del = "\<lambda>client. client\<lparr>deviceGroups := Set_delete (deviceGroups client) (JStr d)\<rparr>"
  obtain h1 where h1: "handleClientMessage e c mj h = Inr h1"
    and c1: "connectedClients h1 = connectedClients (update_client c ?add h)"
    and d1: "db h1 = db h"
    using handle_join [OF join(1), of e c h] join(2)
    by (simp add: clients_log_line db_log_line db_update_client)
  obtain h2 where h2: "handleClientMessage e c ml h1 = Inr h2"
    and c2: "connectedClients h2 = connectedClients (update_client c ?del h1)"
    and d2: "db h2 = db h1"
    using handle_leave [OF leave(1), of e c h1] leave(2)
    by (simp add: clients_log_line db_log_line db_update_client)
  obtain h3 where h3: "handleClientMessage e c mj h1 = Inr h3"
    and c3: "connectedClients h3 = connectedClients (update_client c ?add h1)"
    using handle_join [OF join(1), of e c h1] join(2)
    by (simp add: clients_log_line)
  obtain h4 where h4: "handleClientMessage e c ml h = Inr h4"
    and c4: "connectedClients h4 = connectedClients (update_client c ?del h)"
    using handle_leave [OF leave(1), of e c h] leave(2)
    by (simp add: clients_log_line)
  have twice: "connectedClients h3 = connectedClients h1"
    unfolding c3 c1 clients_update_client map_entries_twice
    by (auto simp add: Set_add_twice)
  have restored: "connectedClients h2 = connectedClients h \<and> db h2 = db h
                \<and> (\<forall>location. connectedClients (broadcastLocation location h2)
                                = connectedClients (broadcastLocation location h))
                \<and> connectedClients h4 = connectedClients h"
    if fresh: "\<forall>(k, client) \<in> set (connectedClients h). k = c \<longrightarrow> \<not> Set_has (deviceGroups client) (JStr d)"
  proof -
    have a: "connectedClients h2 = connectedClients h"
      unfolding c2 clients_update_client c1 map_entries_twice
      by (rule map_entries_id) (use fresh in \<open>auto simp add: Set_add_delete\<close>)
    have b: "connectedClients h4 = connectedClients h"
      unfolding c4 clients_update_client
      by (rule map_entries_id) (use fresh in \<open>auto simp add: Set_delete_absent\<close>)
    from a b d1 d2 broadcastLocation_cong [OF a] show ?thesis by simp
  qed
  from h1 h2 h3 h4 twice restored show ?thesis by blast
qed


theorem C9_join_leave_roundtrip_witness:
  "js_prop (JoinDeviceGroup ''B'') ''type'' = Inr (JStr ''JoinDeviceGroup'')
   \<and> js_get (JoinDeviceGroup ''B'') ''deviceId'' = JStr ''B''
   \<and> js_prop (LeaveDeviceGroup ''B'') ''type'' = Inr (JStr ''LeaveDeviceGroup'')
   \<and> js_get (LeaveDeviceGroup ''B'') ''deviceId'' = JStr ''B''
   \<and> connectedClients (hub_of [client_of ''c1'' OPEN [JStr ''A'']])
       = [(''c1'', client_of ''c1'' OPEN [JStr ''A''])]
   \<and> \<not> Set_has (deviceGroups (client_of ''c1'' OPEN [JStr ''A''])) (JStr ''B'')
   \<and> (\<exists>h1 h2.
          handleClientMessage example_env ''c1'' (JoinDeviceGroup ''B'')
            (hub_of [client_of ''c1'' OPEN [JStr ''A'']]) = Inr h1
        \<and> handleClientMessage example_env ''c1'' (LeaveDeviceGroup ''B'') h1 = Inr h2
        \<and> connectedClients h2 = connectedClients (hub_of [client_of ''c1'' OPEN [JStr ''A'']]))"
proof -
  let ?h = "hub_of [client_of ''c1'' OPEN [JStr ''A'']]"
  have j: "js_prop (JoinDeviceGroup ''B'') ''type'' = Inr (JStr ''JoinDeviceGroup'')"
          "js_get (JoinDeviceGroup ''B'') ''deviceId'' = JStr ''B''"
    by (simp_all add: JoinDeviceGroup_def js_get_def)
  have l: "js_prop (LeaveDeviceGroup ''B'') ''type'' = Inr (JStr ''LeaveDeviceGroup'')"
          "js_get (LeaveDeviceGroup ''B'') ''deviceId'' = JStr ''B''"
    by (simp_all add: LeaveDeviceGroup_def js_get_def)
  have reg: "connectedClients ?h = [(''c1'', client_of ''c1'' OPEN [JStr ''A''])]"
    by (simp add: hub_of_def client_of_def)
  have absent: "\<not> Set_has (deviceGroups (client_of ''c1'' OPEN [JStr ''A''])) (JStr ''B'')"
    by (simp add: client_of_def Set_has_def)
  have fresh: "\<forall>(k, client) \<in> set (connectedClients ?h).
                 k = ''c1'' \<longrightarrow> \<not> Set_has (deviceGroups client) (JStr ''B'')"
    unfolding reg using absent by simp
  from C9_join_leave_roundtrip [OF j l, of example_env "''c1''" ?h] fresh
  have "\<exists>h1 h2.
          handleClientMessage example_env ''c1'' (JoinDeviceGroup ''B'') ?h = Inr h1
        \<and> handleClientMessage example_env ''c1'' (LeaveDeviceGroup ''B'') h1 = Inr h2
        \<and> connectedClients h2 = connectedClients ?h"
    by blast
  with j l reg absent show ?thesis by blast
qed


section \<open>Properties of SendLocation\<close>

lemma digits_example: "digits 1700000000000 = ''1700000000000''"
  by (simp add: digits.simps)





text \<open>
  C6, at the frame
  \<^verbatim>\<open>{"type":"SendLocation","deviceId":"dev-1","latitude":"-33.9","longitude":18.4,"accuracy":"abc"}\<close>
  with storage open and one open connection subscribed to nothing: the message is
  handled, and the connection is sent an update whose latitude is the string
  \<^verbatim>\<open>"-33.9"\<close>, not the number, and whose accuracy is the string \<^verbatim>\<open>"abc"\<close>, not an
  absent field. (The table keeps the latitude as a number: the \<^verbatim>\<open>REAL\<close> column
  converts it; the hub converts nothing.)
\<close>

theorem C6_string_fields_are_sent_as_strings:
  \<open>on_message example_env ''c1''
     ''{"type":"SendLocation","deviceId":"dev-1","latitude":"-33.9","longitude":18.4,"accuracy":"abc"}''
     (with_storage (hub_of [client_of ''c1'' OPEN []]))
   = \<lparr>connectedClients =
        [(''c1'',
          \<lparr>id_c = ''c1'',
           socket = \<lparr>readyState = OPEN,
                     sent = [JObj [(''type'', JStr ''ReceiveLocation''),
                                   (''id'', JStr ''dev-1_1700000000000''),
                                   (''deviceId'', JStr ''dev-1''),
                                   (''latitude'', JStr ''-33.9''),
                                   (''longitude'', JNum ''18.4''),
                                   (''timestamp'', JStr ''2023-11-14T22:13:20.000Z''),
                                   (''accuracy'', JStr ''abc''),
                                   (''speed'', JUndefined),
                                   (''heading'', JUndefined),
                                   (''altitude'', JUndefined)]]\<rparr>,
           deviceGroups = []\<rparr>)],
      db = Some \<lparr>locations =
                   [\<lparr>id_r = ''dev-1_1700000000000'', device_id = JStr ''dev-1'',
                     latitude_r = JNum ''-33.9'', longitude_r = JNum ''18.4'',
                     timestamp_r = ''2023-11-14T22:13:20.000Z'',
                     accuracy_r = JStr ''abc'', speed_r = JNull, heading_r = JNull,
                     altitude_r = JNull\<rparr>],
                 devices =
                   [\<lparr>id_d = JStr ''dev-1'', last_seen = ''2023-11-14 22:13:20'',
                     status = online\<rparr>]\<rparr>,
      console = []\<rparr>\<close>
  by (simp add: on_message_def example_env_def parse_frame_def handleClientMessage_def
      SendLocation_texts_def SendLocation_update_def with_storage_def hub_of_def
      client_of_def js_get_def insertLocation_def stored_row_def updateDeviceStatus_def
      text_affinity_def real_affinity_def sql_eq_def or_null_def broadcastLocation_def
      ReceiveLocation_def Set_size_def sendToClient_def digits_example Let_def)


section \<open>Properties of the presence of devices\<close>



















section \<open>Properties of GetDeviceHistory\<close>

text \<open>
  C7, at the frame
  \<^verbatim>\<open>{"type":"GetDeviceHistory","from":"yesterday","to":"2024-01-01T00:00:00.000Z"}\<close>
  with storage open and the requester's socket open: \<^verbatim>\<open>"yesterday"\<close> is no date to
  \<^verbatim>\<open>new Date\<close>, \<^verbatim>\<open>from.toISOString()\<close> throws a \<^verbatim>\<open>RangeError\<close> inside
  \<^verbatim>\<open>getLocationsByTimeRange\<close>, the handler of the socket's messages catches and logs
  it, and the requester is sent nothing: no \<^verbatim>\<open>ReceiveLocations\<close> with an empty list.
\<close>

theorem C7_unparsable_date_gets_no_reply:
  \<open>JSON_parse example_env
      ''{"type":"GetDeviceHistory","from":"yesterday","to":"2024-01-01T00:00:00.000Z"}''
     = Some (JObj [(''type'', JStr ''GetDeviceHistory''), (''from'', JStr ''yesterday''),
                   (''to'', JStr ''2024-01-01T00:00:00.000Z'')])
   \<and> new_Date example_env (JStr ''yesterday'') = Invalid_Date
   \<and> on_message example_env ''c1''
         ''{"type":"GetDeviceHistory","from":"yesterday","to":"2024-01-01T00:00:00.000Z"}''
         (with_storage (hub_of [client_of ''c1'' OPEN []]))
       = \<lparr>connectedClients =
            [(''c1'', \<lparr>id_c = ''c1'', socket = \<lparr>readyState = OPEN, sent = []\<rparr>,
                      deviceGroups = []\<rparr>)],
          db = Some \<lparr>locations = [], devices = []\<rparr>,
          console = [console_error ''Error parsing message:'' RangeError]\<rparr>\<close>
  by (simp add: example_env_def parse_frame_def on_message_def handleClientMessage_def
      js_get_def getLocationsByTimeRange_def with_storage_def hub_of_def client_of_def
      log_line_def Let_def)


end
